theory Spec2Isabelle
  imports Main
begin

section \<open>JavaScript values\<close>

text \<open>
  The program of \<^verbatim>\<open>src/app.js\<close> handles untyped data: arguments, parsed JSON bodies,
  cached results. A value is one of JavaScript's plain data values. Numbers are the safe
  integers, from \<open>-(2\<^sup>5\<^sup>3 - 1)\<close> to \<open>2\<^sup>5\<^sup>3 - 1\<close>: JavaScript holds each of them exactly and
  prints it in plain decimal. Fractions and larger numbers are not values of the model. A
  string is a list of characters, each one code unit. An object is the list of its own
  properties, as \<^verbatim>\<open>JSON.parse\<close> builds it (one entry per key), with the prototype of a
  plain object; none of its properties is a function.
\<close>

typedef safe_int = "{i :: int. - 9007199254740991 \<le> i \<and> i \<le> 9007199254740991}"
  by (rule exI [of _ 0]) simp

datatype jv =
    JUndef
  | JNull
  | JBool bool
  | JNum safe_int
  | JStr string
  | JArr "jv list"
  | JObj "(string \<times> jv) list"

text \<open>Truthiness, as \<^verbatim>\<open>if (v)\<close>, \<^verbatim>\<open>!v\<close>, \<^verbatim>\<open>a || b\<close> and \<^verbatim>\<open>a && b\<close> test it.\<close>

fun truthy :: "jv \<Rightarrow> bool" where
  "truthy JUndef = False"
| "truthy JNull = False"
| "truthy (JBool b) = b"
| "truthy (JNum n) = (Rep_safe_int n \<noteq> 0)"
| "truthy (JStr s) = (s \<noteq> [])"
| "truthy (JArr xs) = True"
| "truthy (JObj kvs) = True"

text \<open>The operator \<^verbatim>\<open>!v\<close>.\<close>

definition falsy :: "jv \<Rightarrow> bool" where
  "falsy v = (\<not> truthy v)"

text \<open>\<^verbatim>\<open>a || b\<close> on values.\<close>

definition js_or :: "jv \<Rightarrow> jv \<Rightarrow> jv" where
  "js_or a b = (if truthy a then a else b)"

text \<open>A parameter default \<^verbatim>\<open>(x = d)\<close>: it applies when the argument is \<^verbatim>\<open>undefined\<close>.\<close>

definition dflt :: "jv \<Rightarrow> jv \<Rightarrow> jv" where
  "dflt d v = (if v = JUndef then d else v)"

definition nullish :: "jv \<Rightarrow> bool" where
  "nullish v = (v = JUndef \<or> v = JNull)"

subsection \<open>Errors\<close>

text \<open>
  A thrown value is an error object: its constructor and its \<^verbatim>\<open>message\<close>. The program
  reads nothing else of an error it catches.
\<close>

datatype err_name = PlainError | TypeError | SyntaxError | ReferenceError

datatype js_error = JsError err_name string

fun message :: "js_error \<Rightarrow> string" where
  "message (JsError n m) = m"

text \<open>\<^verbatim>\<open>new Error(m)\<close>.\<close>

definition new_Error :: "string \<Rightarrow> js_error" where
  "new_Error m = JsError PlainError m"

text \<open>Sequencing of steps that may throw.\<close>

definition and_then :: "js_error + 'a \<Rightarrow> ('a \<Rightarrow> js_error + 'b) \<Rightarrow> js_error + 'b" where
  "and_then r f = (case r of Inl e \<Rightarrow> Inl e | Inr x \<Rightarrow> f x)"

subsection \<open>Conversion to string, as a template literal does it\<close>

definition digit_char :: "nat \<Rightarrow> char" where
  "digit_char d = ''0123456789'' ! d"

fun show_nat :: "nat \<Rightarrow> string" where
  "show_nat n =
     (if n < 10 then [digit_char n]
      else show_nat (n div 10) @ [digit_char (n mod 10)])"

declare show_nat.simps [simp del]

definition show_int :: "int \<Rightarrow> string" where
  "show_int i = (if i < 0 then ''-'' @ show_nat (nat (- i)) else show_nat (nat i))"

fun join_comma :: "string list \<Rightarrow> string" where
  "join_comma [] = []"
| "join_comma [s] = s"
| "join_comma (s # t # ss) = s @ '','' @ join_comma (t # ss)"

text \<open>The results of steps taken in order: the first error, or all the values.\<close>

fun first_error :: "(js_error + 'a) list \<Rightarrow> js_error + 'a list" where
  "first_error [] = Inr []"
| "first_error (Inl e # rs) = Inl e"
| "first_error (Inr x # rs) = (case first_error rs of Inl e \<Rightarrow> Inl e | Inr xs \<Rightarrow> Inr (x # xs))"

text \<open>The TypeError of a conversion that finds no usable \<^verbatim>\<open>toString\<close> or \<^verbatim>\<open>valueOf\<close> (V8's text).\<close>

definition cannot_convert :: js_error where
  "cannot_convert = JsError TypeError ''Cannot convert object to primitive value''"

text \<open>
  \<^verbatim>\<open>`${v}`\<close>, the conversion of a value to a string. A string is itself. An array joins
  the conversions of its elements with commas, from left to right, \<^verbatim>\<open>null\<close> and
  \<^verbatim>\<open>undefined\<close> elements as the empty string. A plain object calls its \<^verbatim>\<open>toString\<close>: the one
  of \<^verbatim>\<open>Object.prototype\<close> gives \<^verbatim>\<open>[object Object]\<close>; an own property \<^verbatim>\<open>toString\<close> hides it and is
  no function, and the \<^verbatim>\<open>valueOf\<close> tried next gives no primitive value (the inherited one
  returns the object, an own one is no function), so the conversion throws a TypeError.
\<close>

fun js_to_string :: "jv \<Rightarrow> js_error + string" where
  "js_to_string JUndef = Inr ''undefined''"
| "js_to_string JNull = Inr ''null''"
| "js_to_string (JBool b) = Inr (if b then ''true'' else ''false'')"
| "js_to_string (JNum n) = Inr (show_int (Rep_safe_int n))"
| "js_to_string (JStr s) = Inr s"
| "js_to_string (JArr xs) =
     (case first_error (map (\<lambda>x. if nullish x then Inr [] else js_to_string x) xs) of
        Inl e \<Rightarrow> Inl e
      | Inr ss \<Rightarrow> Inr (join_comma ss))"
| "js_to_string (JObj kvs) =
     (if map_of kvs ''toString'' = None then Inr ''[object Object]'' else Inl cannot_convert)"

subsection \<open>Property access\<close>

text \<open>
  \<^verbatim>\<open>v.k\<close> for a value that is neither \<^verbatim>\<open>null\<close> nor \<^verbatim>\<open>undefined\<close>, and for the keys
  the program reads (\<^verbatim>\<open>message\<close>, \<^verbatim>\<open>chunk\<close>, \<^verbatim>\<open>outputs\<close>, \<^verbatim>\<open>artifacts\<close>, \<^verbatim>\<open>stream_url\<close>,
  \<^verbatim>\<open>text\<close>): none of them is a property of a string, number, boolean or array.
\<close>

definition get_prop :: "string \<Rightarrow> jv \<Rightarrow> jv" where
  "get_prop k v =
     (case v of
        JObj kvs \<Rightarrow> (case map_of kvs k of Some x \<Rightarrow> x | None \<Rightarrow> JUndef)
      | _ \<Rightarrow> JUndef)"

text \<open>\<^verbatim>\<open>v[0]\<close> for such a value: the first element, the property \<^verbatim>\<open>"0"\<close>, the first character.\<close>

definition index0 :: "jv \<Rightarrow> jv" where
  "index0 v =
     (case v of
        JArr xs \<Rightarrow> (case xs of [] \<Rightarrow> JUndef | x # _ \<Rightarrow> x)
      | JObj kvs \<Rightarrow> (case map_of kvs ''0'' of Some x \<Rightarrow> x | None \<Rightarrow> JUndef)
      | JStr s \<Rightarrow> (case s of [] \<Rightarrow> JUndef | c # _ \<Rightarrow> JStr [c])
      | _ \<Rightarrow> JUndef)"

text \<open>Optional chaining \<^verbatim>\<open>v?.k\<close>, \<^verbatim>\<open>v?.[0]\<close>: \<^verbatim>\<open>undefined\<close> on a nullish value.\<close>

definition opt :: "(jv \<Rightarrow> jv) \<Rightarrow> jv \<Rightarrow> jv" where
  "opt f v = (if nullish v then JUndef else f v)"

text \<open>
  Plain access \<^verbatim>\<open>v.k\<close>, \<^verbatim>\<open>v[0]\<close>: a TypeError on a nullish value, with the runtime's
  message (V8: \<^verbatim>\<open>Cannot read properties of null (reading 'message')\<close>).
\<close>

definition cannot_read :: "jv \<Rightarrow> string \<Rightarrow> js_error" where
  "cannot_read v k =
     JsError TypeError
       (''Cannot read properties of '' @ (if v = JNull then ''null'' else ''undefined'')
          @ '' (reading '' @ [CHR 0x27] @ k @ [CHR 0x27] @ '')'')"

definition member :: "string \<Rightarrow> jv \<Rightarrow> js_error + jv" where
  "member k v = (if nullish v then Inl (cannot_read v k) else Inr (get_prop k v))"

definition item0 :: "jv \<Rightarrow> js_error + jv" where
  "item0 v = (if nullish v then Inl (cannot_read v ''0'') else Inr (index0 v))"

section \<open>The request client\<close>

text \<open>
  The network is outside the program. It is a parameter: at a time and for a request it
  gives how long the attempt takes and how \<^verbatim>\<open>fetch\<close> settles, with a rejection (DNS,
  connection, timeout) or with a response. A response is read through its status, its
  status text and \<^verbatim>\<open>response.json()\<close>, which settles with the parsed body or rejects
  with the parser's SyntaxError.
\<close>

record request =
  req_url :: string
  req_method :: string
  req_headers :: "(string \<times> string) list"
  req_body :: jv

record response =
  status :: nat
  statusText :: string
  json_of :: "js_error + jv"

text \<open>\<^verbatim>\<open>response.ok\<close>: the status is in the range 200 to 299.\<close>

definition ok :: "response \<Rightarrow> bool" where
  "ok r = (200 \<le> status r \<and> status r \<le> 299)"

datatype fetch_outcome = Rejected js_error | Resolved response

type_synonym network = "nat \<Rightarrow> request \<Rightarrow> nat \<times> fetch_outcome"

text \<open>
  The state the program changes: the clock (milliseconds), the insights cache (a value
  with the time its entry expires) and the requests sent so far.
\<close>

record world =
  clock :: nat
  cache :: "string \<rightharpoonup> jv \<times> nat"
  sent :: "request list"

record client =
  baseURL :: jv
  applicationToken :: jv
  headers :: "(string \<times> string) list"

text \<open>
  The constructor of \<^verbatim>\<open>LangflowClient\<close>. The header is built with a template literal, which
  throws when the token does not convert.
\<close>

definition new_LangflowClient :: "jv \<Rightarrow> jv \<Rightarrow> js_error + client" where
  "new_LangflowClient url token =
     (if falsy url \<or> falsy token
      then Inl (new_Error ''baseURL and applicationToken are required'')
      else and_then (js_to_string token) (\<lambda>bearer.
             Inr \<lparr> baseURL = url, applicationToken = token,
                   headers = [(''Authorization'', ''Bearer '' @ bearer),
                              (''Content-Type'', ''application/json'')] \<rparr>))"

text \<open>
  The first line of \<^verbatim>\<open>post\<close> builds the URL, before the \<^verbatim>\<open>try\<close>: the request that
  \<^verbatim>\<open>fetch\<close> is then called with, or the TypeError of a base URL that does not convert.
\<close>

definition build_request :: "client \<Rightarrow> string \<Rightarrow> jv \<Rightarrow> js_error + request" where
  "build_request c endpoint body =
     and_then (js_to_string (baseURL c)) (\<lambda>base.
       Inr \<lparr> req_url = base @ endpoint, req_method = ''POST'',
             req_headers = headers c, req_body = body \<rparr>)"

text \<open>The \<^verbatim>\<open>catch\<close> of \<^verbatim>\<open>post\<close>: whatever was thrown in its \<^verbatim>\<open>try\<close> comes out as a new Error.\<close>

definition request_failed :: "js_error \<Rightarrow> js_error" where
  "request_failed e = new_Error (''Request failed: '' @ message e)"

text \<open>
  \<^verbatim>\<open>post\<close>. The \<^verbatim>\<open>throw\<close> for a response that is not ok stands inside the \<^verbatim>\<open>try\<close>, so the
  \<^verbatim>\<open>catch\<close> receives it, as it receives a rejection of \<^verbatim>\<open>fetch\<close>, the TypeError of
  \<^verbatim>\<open>errorData.message\<close> on a body that is \<^verbatim>\<open>null\<close>, and the TypeError of the template
  literal on a message that does not convert. The body that does not parse is replaced by
  \<^verbatim>\<open>{}\<close>. For an ok response the promise of \<^verbatim>\<open>response.json()\<close> is returned without
  \<^verbatim>\<open>await\<close>: its rejection is not caught here.
\<close>

definition post :: "network \<Rightarrow> client \<Rightarrow> string \<Rightarrow> jv \<Rightarrow> world \<Rightarrow> (js_error + jv) \<times> world" where
  "post net c endpoint body w =
     (case build_request c endpoint body of
        Inl thrown \<Rightarrow> (Inl thrown, w)
      | Inr req \<Rightarrow>
          (let answer = net (clock w) req;
               w' = w \<lparr> clock := clock w + fst answer, sent := sent w @ [req] \<rparr>
           in case snd answer of
                Rejected cause \<Rightarrow> (Inl (request_failed cause), w')
              | Resolved r \<Rightarrow>
                  if \<not> ok r then
                    (let errorData = (case json_of r of Inl e \<Rightarrow> JObj [] | Inr d \<Rightarrow> d) in
                     case and_then (member ''message'' errorData)
                            (\<lambda>m. js_to_string (js_or m (JStr (statusText r)))) of
                       Inl te \<Rightarrow> (Inl (request_failed te), w')
                     | Inr detail \<Rightarrow>
                         (Inl (request_failed (new_Error
                            (''HTTP '' @ show_nat (status r) @ '': '' @ detail))), w'))
                  else (json_of r, w')))"

text \<open>
  The endpoint of \<^verbatim>\<open>initiateSession\<close>, a template literal: the conversions are made in
  the order of the text.
\<close>

definition session_endpoint :: "jv \<Rightarrow> jv \<Rightarrow> jv \<Rightarrow> js_error + string" where
  "session_endpoint langflowId flowId stream =
     and_then (js_to_string langflowId) (\<lambda>l.
     and_then (js_to_string flowId) (\<lambda>f.
     and_then (js_to_string stream) (\<lambda>s.
       Inr (''/lf/'' @ l @ ''/api/v1/run/'' @ f @ ''?stream='' @ s))))"

definition session_body :: "jv \<Rightarrow> jv \<Rightarrow> jv \<Rightarrow> jv \<Rightarrow> jv" where
  "session_body inputValue inputType outputType tweaks =
     JObj [(''input_value'', inputValue), (''input_type'', inputType),
           (''output_type'', outputType), (''tweaks'', tweaks)]"

text \<open>
  \<^verbatim>\<open>initiateSession\<close>, with the defaults of its parameters: \<^verbatim>\<open>'chat'\<close>, \<^verbatim>\<open>'chat'\<close>,
  \<^verbatim>\<open>false\<close> and \<^verbatim>\<open>{}\<close>.
\<close>

definition initiateSession ::
  "network \<Rightarrow> client \<Rightarrow> jv \<Rightarrow> jv \<Rightarrow> jv \<Rightarrow> jv \<Rightarrow> jv \<Rightarrow> jv \<Rightarrow> jv \<Rightarrow> world
     \<Rightarrow> (js_error + jv) \<times> world" where
  "initiateSession net c flowId langflowId inputValue inputType0 outputType0 stream0 tweaks0 w =
     (let inputType = dflt (JStr ''chat'') inputType0;
          outputType = dflt (JStr ''chat'') outputType0;
          stream = dflt (JBool False) stream0;
          tweaks = dflt (JObj []) tweaks0
      in if falsy flowId \<or> falsy langflowId \<or> falsy inputValue
         then (Inl (new_Error ''Missing required parameters''), w)
         else
           (case session_endpoint langflowId flowId stream of
              Inl thrown \<Rightarrow> (Inl thrown, w)
            | Inr endpoint \<Rightarrow>
                post net c endpoint (session_body inputValue inputType outputType tweaks) w))"

text \<open>
  The request \<^verbatim>\<open>initiateSession\<close> sends, when its arguments convert and it sends one.
\<close>

definition session_request ::
  "client \<Rightarrow> jv \<Rightarrow> jv \<Rightarrow> jv \<Rightarrow> jv \<Rightarrow> jv \<Rightarrow> jv \<Rightarrow> jv \<Rightarrow> js_error + request" where
  "session_request c flowId langflowId inputValue inputType0 outputType0 stream0 tweaks0 =
     and_then (session_endpoint langflowId flowId (dflt (JBool False) stream0)) (\<lambda>endpoint.
       build_request c endpoint
         (session_body inputValue (dflt (JStr ''chat'') inputType0)
            (dflt (JStr ''chat'') outputType0) (dflt (JObj []) tweaks0)))"

section \<open>The stream consumer\<close>

text \<open>
  \<^verbatim>\<open>handleStream\<close> opens an \<^verbatim>\<open>EventSource\<close> and installs callbacks. The state of one
  stream: whether the event source is closed, the variable \<^verbatim>\<open>heartbeatTimeout\<close> (the timer
  last created, named by the time it is due), whether that timer is still pending, and the
  calls made so far, in order. Console output is left out.
\<close>

datatype err_arg = ErrObj js_error | ErrEvent

datatype call =
    OnUpdate jv
  | OnClose string
  | OnError err_arg
  | EsClose
  | ClearTimeout
  | SetTimeout nat

text \<open>
  The three callbacks of the caller. A callback returns (\<open>None\<close>) or throws
  (\<open>Some e\<close>).
\<close>

record handlers =
  onUpdate :: "jv \<Rightarrow> js_error option"
  onClose :: "string \<Rightarrow> js_error option"
  onError :: "err_arg \<Rightarrow> js_error option"

record eventSource =
  stream_url :: jv
  closed :: bool
  heartbeatTimeout :: "nat option"
  armed :: bool
  calls :: "call list"

definition heartbeat_window :: nat where
  "heartbeat_window = 30000"

definition logged :: "call \<Rightarrow> eventSource \<Rightarrow> eventSource" where
  "logged c s = s \<lparr> calls := calls s @ [c] \<rparr>"

text \<open>\<^verbatim>\<open>eventSource.close()\<close>.\<close>

definition es_close :: "eventSource \<Rightarrow> eventSource" where
  "es_close s = logged EsClose (s \<lparr> closed := True \<rparr>)"

text \<open>\<^verbatim>\<open>clearTimeout(heartbeatTimeout)\<close>.\<close>

definition clearTimeout :: "eventSource \<Rightarrow> eventSource" where
  "clearTimeout s = logged ClearTimeout (s \<lparr> armed := False \<rparr>)"

text \<open>\<^verbatim>\<open>resetHeartbeat\<close>, called at time \<open>t\<close>.\<close>

definition resetHeartbeat :: "nat \<Rightarrow> eventSource \<Rightarrow> eventSource" where
  "resetHeartbeat t s =
     (let s1 = (if heartbeatTimeout s = None then s else clearTimeout s)
      in logged (SetTimeout (t + heartbeat_window))
           (s1 \<lparr> heartbeatTimeout := Some (t + heartbeat_window), armed := True \<rparr>))"

definition call_onError :: "handlers \<Rightarrow> err_arg \<Rightarrow> eventSource \<Rightarrow> js_error option \<times> eventSource" where
  "call_onError hs a s = (onError hs a, logged (OnError a) s)"

text \<open>The callback of the timer: it closes the event source, then reports.\<close>

definition heartbeat_fires :: "handlers \<Rightarrow> eventSource \<Rightarrow> js_error option \<times> eventSource" where
  "heartbeat_fires hs s =
     call_onError hs (ErrObj (new_Error ''Stream timeout'')) (es_close (s \<lparr> armed := False \<rparr>))"

text \<open>
  \<^verbatim>\<open>eventSource.onmessage\<close>, at time \<open>t\<close>. The payload \<^verbatim>\<open>event.data\<close> is given by what
  \<^verbatim>\<open>JSON.parse\<close> does with it: the SyntaxError it throws, or the value. Both
  \<^verbatim>\<open>JSON.parse\<close> and the call of \<^verbatim>\<open>onUpdate\<close> stand in the \<^verbatim>\<open>try\<close>; the \<^verbatim>\<open>catch\<close> calls
  \<^verbatim>\<open>onError\<close> and then closes.
\<close>

definition onmessage ::
  "handlers \<Rightarrow> nat \<Rightarrow> js_error + jv \<Rightarrow> eventSource \<Rightarrow> js_error option \<times> eventSource" where
  "onmessage hs t payload s =
     (let s1 = resetHeartbeat t s;
          tried = (case payload of
                     Inl parse_error \<Rightarrow> (Some parse_error, s1)
                   | Inr data \<Rightarrow> (onUpdate hs data, logged (OnUpdate data) s1))
      in case fst tried of
           None \<Rightarrow> (None, snd tried)
         | Some error \<Rightarrow>
             (let reported = call_onError hs
                    (ErrObj (new_Error (''Failed to parse stream data: '' @ message error)))
                    (snd tried)
              in case fst reported of
                   Some thrown \<Rightarrow> (Some thrown, snd reported)
                 | None \<Rightarrow> (None, es_close (snd reported))))"

text \<open>\<^verbatim>\<open>eventSource.onerror\<close>.\<close>

definition onerror :: "handlers \<Rightarrow> eventSource \<Rightarrow> js_error option \<times> eventSource" where
  "onerror hs s =
     (let reported = call_onError hs ErrEvent (clearTimeout s)
      in case fst reported of
           Some thrown \<Rightarrow> (Some thrown, snd reported)
         | None \<Rightarrow> (None, es_close (snd reported)))"

text \<open>The listener of the event named \<^verbatim>\<open>close\<close>.\<close>

definition onclose :: "handlers \<Rightarrow> eventSource \<Rightarrow> js_error option \<times> eventSource" where
  "onclose hs s =
     (let s1 = clearTimeout s
      in case onClose hs ''Stream closed'' of
           Some thrown \<Rightarrow> (Some thrown, logged (OnClose ''Stream closed'') s1)
         | None \<Rightarrow> (None, es_close (logged (OnClose ''Stream closed'') s1)))"

text \<open>
  \<^verbatim>\<open>handleStream\<close>, called at time \<open>t\<close>; the result is the event source it returns. The
  program neither defines nor imports \<^verbatim>\<open>EventSource\<close>: what \<^verbatim>\<open>new EventSource(streamUrl)\<close>
  does is the runtime's, and a parameter here. It constructs the event source (\<open>None\<close>) or
  throws (\<open>Some e\<close>): a ReferenceError where the runtime has no such global, the
  constructor's own error for a URL it refuses.
\<close>

definition handleStream :: "(jv \<Rightarrow> js_error option) \<Rightarrow> jv \<Rightarrow> nat \<Rightarrow> js_error + eventSource" where
  "handleStream construct streamUrl t =
     (if falsy streamUrl then Inl (new_Error ''Stream URL is required'')
      else case construct streamUrl of
             Some thrown \<Rightarrow> Inl thrown
           | None \<Rightarrow>
               Inr (resetHeartbeat t
                 \<lparr> stream_url = streamUrl, closed = False, heartbeatTimeout = None,
                   armed = False, calls = [] \<rparr>))"

subsection \<open>The event loop around a stream\<close>

text \<open>
  What can happen to an open stream: a message, a transport error, the server's close
  event, and the caller closing the handle. The runtime runs a timer's callback once the
  timer is due, before it delivers what arrives at that time or later, and a closed event
  source delivers nothing more. An exception no callback catches ends the run.
\<close>

datatype occurrence = Message "js_error + jv" | ErrorEvent | CloseEvent | HandleClose

definition fire_due :: "handlers \<Rightarrow> nat \<Rightarrow> eventSource \<Rightarrow> js_error option \<times> eventSource" where
  "fire_due hs t s =
     (if armed s \<and> (case heartbeatTimeout s of None \<Rightarrow> False | Some d \<Rightarrow> d \<le> t)
      then heartbeat_fires hs s else (None, s))"

definition dispatch ::
  "handlers \<Rightarrow> nat \<Rightarrow> occurrence \<Rightarrow> eventSource \<Rightarrow> js_error option \<times> eventSource" where
  "dispatch hs t ev s =
     (case ev of
        HandleClose \<Rightarrow> (None, es_close s)
      | Message payload \<Rightarrow> if closed s then (None, s) else onmessage hs t payload s
      | ErrorEvent \<Rightarrow> if closed s then (None, s) else onerror hs s
      | CloseEvent \<Rightarrow> if closed s then (None, s) else onclose hs s)"

fun run :: "handlers \<Rightarrow> (nat \<times> occurrence) list \<Rightarrow> eventSource \<Rightarrow> js_error option \<times> eventSource" where
  "run hs [] s = (None, s)"
| "run hs ((t, ev) # rest) s =
     (let fired = fire_due hs t s
      in case fst fired of
           Some thrown \<Rightarrow> (Some thrown, snd fired)
         | None \<Rightarrow>
             (let handled = dispatch hs t ev (snd fired)
              in case fst handled of
                   Some thrown \<Rightarrow> (Some thrown, snd handled)
                 | None \<Rightarrow> run hs rest (snd handled)))"

text \<open>The events \<open>evs\<close> (in the order of their times), then silence until the time \<open>T\<close>.\<close>

definition run_until ::
  "handlers \<Rightarrow> (nat \<times> occurrence) list \<Rightarrow> nat \<Rightarrow> eventSource \<Rightarrow> js_error option \<times> eventSource" where
  "run_until hs evs T s =
     (let ran = run hs evs s
      in case fst ran of
           Some thrown \<Rightarrow> (Some thrown, snd ran)
         | None \<Rightarrow> fire_due hs T (snd ran))"

section \<open>Orchestration\<close>

text \<open>\<^verbatim>\<open>initResponse?.outputs?.[0]?.outputs?.[0]?.artifacts?.stream_url\<close>.\<close>

definition stream_url_at :: "jv \<Rightarrow> jv" where
  "stream_url_at r =
     opt (get_prop ''stream_url'') (opt (get_prop ''artifacts'') (opt index0
       (opt (get_prop ''outputs'') (opt index0 (opt (get_prop ''outputs'') r)))))"

text \<open>\<^verbatim>\<open>initResponse.outputs[0].outputs[0].artifacts.stream_url\<close>.\<close>

definition stream_url_of :: "jv \<Rightarrow> js_error + jv" where
  "stream_url_of r =
     and_then (and_then (and_then (and_then (and_then (member ''outputs'' r) item0)
       (member ''outputs'')) item0) (member ''artifacts'')) (member ''stream_url'')"

datatype flow_result = Response jv | StreamHandle eventSource

text \<open>The \<^verbatim>\<open>catch\<close> of \<^verbatim>\<open>runFlow\<close>.\<close>

definition flow_failed :: "js_error \<Rightarrow> js_error" where
  "flow_failed e = new_Error (''Flow execution failed: '' @ message e)"

definition runFlow ::
  "(jv \<Rightarrow> js_error option) \<Rightarrow> network \<Rightarrow> client \<Rightarrow> jv \<Rightarrow> jv \<Rightarrow> jv \<Rightarrow> jv \<Rightarrow> jv \<Rightarrow> jv \<Rightarrow> jv
     \<Rightarrow> world \<Rightarrow> (js_error + flow_result) \<times> world" where
  "runFlow construct net c flowIdOrName langflowId inputValue inputType0 outputType0 tweaks0
     stream0 w =
     (let inputType = dflt (JStr ''chat'') inputType0;
          outputType = dflt (JStr ''chat'') outputType0;
          tweaks = dflt (JObj []) tweaks0;
          stream = dflt (JBool False) stream0;
          started = initiateSession net c flowIdOrName langflowId inputValue
                      inputType outputType stream tweaks w;
          w1 = snd started
      in case fst started of
           Inl error \<Rightarrow> (Inl (flow_failed error), w1)
         | Inr initResponse \<Rightarrow>
             if truthy stream \<and> truthy (stream_url_at initResponse) then
               (case and_then (stream_url_of initResponse)
                       (\<lambda>streamUrl. handleStream construct streamUrl (clock w1)) of
                  Inl error \<Rightarrow> (Inl (flow_failed error), w1)
                | Inr es \<Rightarrow> (Inr (StreamHandle es), w1))
             else (Inr (Response initResponse), w1))"

section \<open>The insights cache and the lookup\<close>

text \<open>
  \<^verbatim>\<open>new NodeCache({ stdTTL: 3600 })\<close>: the library keeps with each value the time its entry
  expires, the time of \<^verbatim>\<open>set\<close> plus \<^verbatim>\<open>stdTTL\<close> seconds; \<^verbatim>\<open>get\<close> gives \<^verbatim>\<open>undefined\<close> for a
  key it does not hold or whose entry has expired, and drops the expired entry.
\<close>

definition stdTTL :: nat where
  "stdTTL = 3600"

definition cache_get :: "(string \<rightharpoonup> jv \<times> nat) \<Rightarrow> nat \<Rightarrow> string \<Rightarrow> jv" where
  "cache_get c t k =
     (case c k of None \<Rightarrow> JUndef | Some (v, expires) \<Rightarrow> if expires < t then JUndef else v)"

definition cache_expire :: "(string \<rightharpoonup> jv \<times> nat) \<Rightarrow> nat \<Rightarrow> string \<Rightarrow> (string \<rightharpoonup> jv \<times> nat)" where
  "cache_expire c t k =
     (case c k of None \<Rightarrow> c | Some (v, expires) \<Rightarrow> if expires < t then c(k := None) else c)"

definition cache_set :: "(string \<rightharpoonup> jv \<times> nat) \<Rightarrow> nat \<Rightarrow> string \<Rightarrow> jv \<Rightarrow> (string \<rightharpoonup> jv \<times> nat)" where
  "cache_set c t k v = c(k \<mapsto> (v, t + stdTTL * 1000))"

text \<open>
  What the process gives the program: \<^verbatim>\<open>process.env.MODEL_TOKEN\<close>, a string when it is set,
  and what \<^verbatim>\<open>new EventSource(url)\<close> does in this runtime.
\<close>

record env =
  MODEL_TOKEN :: "string option"
  new_EventSource :: "jv \<Rightarrow> js_error option"

text \<open>The key of the cache, a template literal.\<close>

definition cacheKey :: "jv \<Rightarrow> js_error + string" where
  "cacheKey inputValue = and_then (js_to_string inputValue) (\<lambda>s. Inr (''insights-'' @ s))"

text \<open>\<^verbatim>\<open>response?.outputs?.[0]?.outputs?.[0]?.outputs?.message?.message?.text\<close>.\<close>

definition text_at :: "jv \<Rightarrow> jv" where
  "text_at r =
     opt (get_prop ''text'') (opt (get_prop ''message'') (opt (get_prop ''message'')
       (opt (get_prop ''outputs'') (opt index0 (opt (get_prop ''outputs'') (opt index0
         (opt (get_prop ''outputs'') r)))))))"

text \<open>\<^verbatim>\<open>response.outputs[0].outputs[0].outputs.message.message.text\<close>.\<close>

definition text_of :: "jv \<Rightarrow> js_error + jv" where
  "text_of r =
     and_then (and_then (and_then (and_then (and_then (and_then (and_then
       (member ''outputs'' r) item0) (member ''outputs'')) item0) (member ''outputs''))
       (member ''message'')) (member ''message'')) (member ''text'')"

definition insights_tweaks :: jv where
  "insights_tweaks =
     JObj [(''Agent-C6mqP'', JObj []), (''ChatInput-X4siD'', JObj []),
           (''ChatOutput-XzlpZ'', JObj []), (''URL-DITVH'', JObj []),
           (''AstraDBCQLToolComponent-GXZ2B'', JObj [])]"

definition insights_flowId :: jv where
  "insights_flowId = JStr ''5d664ca6-224d-4112-b143-d31786f9a046''"

definition insights_langflowId :: jv where
  "insights_langflowId = JStr ''aa552875-56d4-431d-94bd-389aa1c8d68f''"

definition insights_baseURL :: jv where
  "insights_baseURL = JStr ''https://api.langflow.astra.datastax.com''"

text \<open>
  The callbacks \<^verbatim>\<open>getInsights\<close> passes to \<^verbatim>\<open>runFlow\<close>. They write to the console; the
  first reads \<^verbatim>\<open>data.chunk\<close>.
\<close>

definition insights_callbacks :: handlers where
  "insights_callbacks =
     \<lparr> onUpdate = (\<lambda>data. case member ''chunk'' data of Inl e \<Rightarrow> Some e | Inr v \<Rightarrow> None),
       onClose = (\<lambda>m. None),
       onError = (\<lambda>error. None) \<rparr>"

text \<open>The \<^verbatim>\<open>catch\<close> of \<^verbatim>\<open>getInsights\<close>.\<close>

definition insights_failed :: "js_error \<Rightarrow> js_error" where
  "insights_failed e = new_Error (''Failed to get insights: '' @ message e)"

text \<open>
  \<^verbatim>\<open>getInsights\<close>. The key is built first, outside the \<^verbatim>\<open>try\<close>: a keyword that does not
  convert makes the call throw there. A stream handle that \<^verbatim>\<open>runFlow\<close> returns has no
  property \<^verbatim>\<open>outputs\<close>, so the path through it is \<^verbatim>\<open>undefined\<close>.
\<close>

definition getInsights ::
  "env \<Rightarrow> network \<Rightarrow> jv \<Rightarrow> jv \<Rightarrow> jv \<Rightarrow> jv \<Rightarrow> world \<Rightarrow> (js_error + jv) \<times> world" where
  "getInsights ev net inputValue inputType0 outputType0 stream0 w =
     (let inputType = dflt (JStr ''chat'') inputType0;
          outputType = dflt (JStr ''chat'') outputType0;
          stream = dflt (JBool False) stream0
      in case cacheKey inputValue of
           Inl thrown \<Rightarrow> (Inl thrown, w)
         | Inr key \<Rightarrow>
      (let cachedResult = cache_get (cache w) (clock w) key;
           w0 = w \<lparr> cache := cache_expire (cache w) (clock w) key \<rparr>
       in if truthy cachedResult then (Inr cachedResult, w0)
          else
           (let applicationToken = (case MODEL_TOKEN ev of None \<Rightarrow> JUndef | Some s \<Rightarrow> JStr s)
            in if falsy applicationToken
               then (Inl (new_Error ''MODEL_TOKEN environment variable is not set''), w0)
               else
                 (case new_LangflowClient insights_baseURL applicationToken of
                    Inl error \<Rightarrow> (Inl error, w0)
                  | Inr langflowClient \<Rightarrow>
                      (let ran = runFlow (new_EventSource ev) net langflowClient
                                   insights_flowId insights_langflowId
                                   inputValue inputType outputType insights_tweaks stream
                                   w0;
                           w1 = snd ran
                       in case fst ran of
                            Inl error \<Rightarrow> (Inl (insights_failed error), w1)
                          | Inr response \<Rightarrow>
                              if falsy stream \<and>
                                 truthy (case response of Response r \<Rightarrow> text_at r
                                         | StreamHandle es \<Rightarrow> JUndef)
                              then
                                (case (case response of Response r \<Rightarrow> text_of r
                                       | StreamHandle es \<Rightarrow> Inr JUndef) of
                                   Inl error \<Rightarrow> (Inl (insights_failed error), w1)
                                 | Inr output \<Rightarrow>
                                     (Inr output,
                                      w1 \<lparr> cache := cache_set (cache w1) (clock w1) key output \<rparr>))
                              else (Inl (insights_failed (new_Error ''Invalid response format'')), w1))))))"

section \<open>The HTTP gateway\<close>

text \<open>
  An error as the framework hands it to the error handler: its \<^verbatim>\<open>statusCode\<close>, when it has
  one, and its \<^verbatim>\<open>message\<close>.
\<close>

record http_error =
  statusCode :: "nat option"
  error_message :: string

record reply =
  reply_status :: nat
  reply_payload :: jv

text \<open>\<^verbatim>\<open>fastify.httpErrors.createError(code, message)\<close>.\<close>

definition createError :: "nat \<Rightarrow> string \<Rightarrow> http_error" where
  "createError code m = \<lparr> statusCode = Some code, error_message = m \<rparr>"

text \<open>The handler of \<^verbatim>\<open>GET /insights/:keyword\<close>: the payload it returns, or what it throws.\<close>

definition insights_handler ::
  "env \<Rightarrow> network \<Rightarrow> string \<Rightarrow> world \<Rightarrow> (http_error + jv) \<times> world" where
  "insights_handler ev net keyword w =
     (let got = getInsights ev net (JStr keyword) JUndef JUndef JUndef w
      in case fst got of
           Inr response \<Rightarrow> (Inr (JObj [(''success'', JBool True), (''data'', response)]), snd got)
         | Inl error \<Rightarrow> (Inl (createError 500 (message error)), snd got))"

text \<open>The handler given to \<^verbatim>\<open>fastify.setErrorHandler\<close>.\<close>

definition errorHandler :: "http_error \<Rightarrow> reply" where
  "errorHandler error =
     (let code = (case statusCode error of None \<Rightarrow> 500 | Some n \<Rightarrow> if n = 0 then 500 else n);
          response = JObj [(''success'', JBool False),
                           (''error'', JStr (if code = 500 then ''Internal Server Error''
                                             else error_message error))]
      in \<lparr> reply_status = code, reply_payload = response \<rparr>)"

text \<open>
  The schema of the route: \<^verbatim>\<open>keyword\<close> is required, a string, \<^verbatim>\<open>minLength: 1\<close>. The
  framework checks it before the handler runs; a keyword that fails gives a validation
  error with status code 400. The text of its message is the framework's, a parameter
  here.
\<close>

definition validate_params :: "string \<Rightarrow> string \<Rightarrow> http_error option" where
  "validate_params complaint keyword =
     (if length keyword < 1
      then Some \<lparr> statusCode = Some 400, error_message = complaint \<rparr> else None)"

text \<open>
  A request to the route: the validation, then the handler's payload with status 200, or
  the error handler's reply to the error of the validation or of the handler.
\<close>

definition serve_insights :: "string \<Rightarrow> env \<Rightarrow> network \<Rightarrow> string \<Rightarrow> world \<Rightarrow> reply \<times> world" where
  "serve_insights complaint ev net keyword w =
     (case validate_params complaint keyword of
        Some invalid \<Rightarrow> (errorHandler invalid, w)
      | None \<Rightarrow>
          (let handled = insights_handler ev net keyword w
           in case fst handled of
                Inr payload \<Rightarrow> (\<lparr> reply_status = 200, reply_payload = payload \<rparr>, snd handled)
              | Inl error \<Rightarrow> (errorHandler error, snd handled)))"

section \<open>Terms of the claims and sample inputs\<close>

text \<open>An argument that is the empty string or missing.\<close>

definition empty_or_missing :: "jv \<Rightarrow> bool" where
  "empty_or_missing v = (v = JStr [] \<or> v = JUndef)"

text \<open>
  The client \<^verbatim>\<open>getInsights\<close> builds from a token, and the request it sends then, when the
  \<^verbatim>\<open>stream\<close> argument converts.
\<close>

definition insights_client :: "string \<Rightarrow> client" where
  "insights_client token =
     \<lparr> baseURL = insights_baseURL, applicationToken = JStr token,
       headers = [(''Authorization'', ''Bearer '' @ token),
                  (''Content-Type'', ''application/json'')] \<rparr>"

definition insights_request :: "string \<Rightarrow> jv \<Rightarrow> jv \<Rightarrow> jv \<Rightarrow> jv \<Rightarrow> js_error + request" where
  "insights_request token inputValue inputType outputType stream =
     session_request (insights_client token) insights_flowId insights_langflowId
       inputValue inputType outputType stream insights_tweaks"

text \<open>
  The world after a lookup that missed the cache and sent one request: the clock has moved
  by the latency, an expired entry of the key is gone, the request is recorded.
\<close>

definition after_call :: "world \<Rightarrow> string \<Rightarrow> nat \<Rightarrow> request \<Rightarrow> world" where
  "after_call w key latency req =
     w \<lparr> clock := clock w + latency, cache := cache_expire (cache w) (clock w) key,
         sent := sent w @ [req] \<rparr>"





subsection \<open>Sample inputs\<close>

definition demo_client :: client where
  "demo_client =
     \<lparr> baseURL = JStr ''https://api.example'', applicationToken = JStr ''tok'',
       headers = [(''Authorization'', ''Bearer tok''), (''Content-Type'', ''application/json'')] \<rparr>"

definition idle_world :: world where
  "idle_world = \<lparr> clock = 0, cache = Map.empty, sent = [] \<rparr>"

definition warm_world :: world where
  "warm_world =
     \<lparr> clock = 1000, cache = [''insights-rust'' \<mapsto> (JStr ''X'', 5000)], sent = [] \<rparr>"


text \<open>
  A network that answers every request the same way, and the message of the framework for
  an empty keyword.
\<close>

definition too_short :: string where
  "too_short = ''params/keyword must NOT have fewer than 1 characters''"

definition answering :: "nat \<Rightarrow> fetch_outcome \<Rightarrow> network" where
  "answering latency outcome = (\<lambda>t q. (latency, outcome))"

definition unavailable :: response where
  "unavailable =
     \<lparr> status = 503, statusText = ''Service Unavailable'',
       json_of = Inl (JsError SyntaxError ''Unexpected token < in JSON at position 0'') \<rparr>"

definition null_body :: response where
  "null_body = \<lparr> status = 500, statusText = ''Internal Server Error'', json_of = Inr JNull \<rparr>"

definition unconvertible_body :: response where
  "unconvertible_body =
     \<lparr> status = 500, statusText = ''Internal Server Error'',
       json_of = Inr (JObj [(''message'', JObj [(''toString'', JBool True)])]) \<rparr>"

definition quota_body :: response where
  "quota_body =
     \<lparr> status = 429, statusText = ''Too Many Requests'',
       json_of = Inr (JObj [(''message'', JStr ''quota exceeded'')]) \<rparr>"

text \<open>
  A successful response with a body, the body that holds \<open>t\<close> at the nested path, and a
  body that holds a stream URL and nothing at that path.
\<close>

definition replying :: "jv \<Rightarrow> response" where
  "replying body = \<lparr> status = 200, statusText = ''OK'', json_of = Inr body \<rparr>"

definition answer_with :: "jv \<Rightarrow> jv" where
  "answer_with t =
     JObj [(''outputs'', JArr [JObj [(''outputs'', JArr [JObj [(''outputs'',
       JObj [(''message'', JObj [(''message'', JObj [(''text'', t)])])])]])]])]"

text \<open>A runtime without the global \<^verbatim>\<open>EventSource\<close>, and one that constructs every event source.\<close>

definition no_EventSource :: "jv \<Rightarrow> js_error option" where
  "no_EventSource url = Some (JsError ReferenceError ''EventSource is not defined'')"

definition any_EventSource :: "jv \<Rightarrow> js_error option" where
  "any_EventSource url = None"

definition stream_offer :: jv where
  "stream_offer =
     JObj [(''outputs'', JArr [JObj [(''outputs'', JArr [JObj [(''artifacts'',
       JObj [(''stream_url'', JStr ''https://api.example/stream/1'')])]])]])]"

definition configured :: env where
  "configured = \<lparr> MODEL_TOKEN = Some ''secret'', new_EventSource = no_EventSource \<rparr>"

definition unconfigured :: env where
  "unconfigured = \<lparr> MODEL_TOKEN = None, new_EventSource = no_EventSource \<rparr>"

text \<open>Callbacks that return, and callbacks whose \<^verbatim>\<open>onUpdate\<close> throws.\<close>

definition quiet :: handlers where
  "quiet = \<lparr> onUpdate = (\<lambda>data. None), onClose = (\<lambda>m. None), onError = (\<lambda>error. None) \<rparr>"

definition failing_consumer :: handlers where
  "failing_consumer =
     \<lparr> onUpdate = (\<lambda>data. Some (new_Error ''consumer failed'')),
       onClose = (\<lambda>m. None), onError = (\<lambda>error. None) \<rparr>"

text \<open>The stream \<^verbatim>\<open>handleStream\<close> returns at time 0, where the runtime constructs it.\<close>

definition fresh_stream :: eventSource where
  "fresh_stream =
     \<lparr> stream_url = JStr ''https://api.example/stream/1'', closed = False,
       heartbeatTimeout = Some 30000, armed = True, calls = [SetTimeout 30000] \<rparr>"

text \<open>A payload that is not JSON, and two messages that are.\<close>

definition garbled :: "js_error + jv" where
  "garbled = Inl (JsError SyntaxError ''Unexpected token h in JSON at position 0'')"



text \<open>
  The request of a lookup of \<^verbatim>\<open>rust\<close> with the token \<^verbatim>\<open>secret\<close> and the other arguments
  missing, for the text that the \<^verbatim>\<open>stream\<close> argument converts to.
\<close>

definition rust_request :: "string \<Rightarrow> request" where
  "rust_request stream_text =
     \<lparr> req_url = ''https://api.langflow.astra.datastax.com''
                   @ ''/lf/aa552875-56d4-431d-94bd-389aa1c8d68f''
                   @ ''/api/v1/run/5d664ca6-224d-4112-b143-d31786f9a046''
                   @ ''?stream='' @ stream_text,
       req_method = ''POST'',
       req_headers = [(''Authorization'', ''Bearer secret''),
                      (''Content-Type'', ''application/json'')],
       req_body = JObj [(''input_value'', JStr ''rust''), (''input_type'', JStr ''chat''),
                        (''output_type'', JStr ''chat''), (''tweaks'', insights_tweaks)] \<rparr>"

section \<open>The request client: properties\<close>

lemma empty_or_missing_falsy: "empty_or_missing v \<Longrightarrow> falsy v"
  by (auto simp: empty_or_missing_def falsy_def)

lemma show_nat_429: "show_nat 429 = ''429''"
  by (simp add: show_nat.simps digit_char_def)

text \<open>
  Claim C6. When \<^verbatim>\<open>flowId\<close>, \<^verbatim>\<open>langflowId\<close> or \<^verbatim>\<open>inputValue\<close> is the empty string or missing,
  \<^verbatim>\<open>initiateSession\<close> fails with the error \<^verbatim>\<open>Missing required parameters\<close> and leaves the
  world as it was: no request has been sent, whatever the network would have answered.
\<close>

theorem initiateSession_missing_parameter:
  assumes "empty_or_missing flowId \<or> empty_or_missing langflowId \<or> empty_or_missing inputValue"
  shows "initiateSession net c flowId langflowId inputValue inputType outputType stream tweaks w
           = (Inl (new_Error ''Missing required parameters''), w)"
  using assms by (auto simp: initiateSession_def Let_def dest: empty_or_missing_falsy)

theorem initiateSession_missing_parameter_witness:
  "empty_or_missing (JStr '''') \<and>
   initiateSession (answering 40 (Resolved quota_body)) demo_client
       (JStr '''') (JStr ''g'') (JStr ''hello'') JUndef JUndef JUndef JUndef idle_world
     = (Inl (new_Error ''Missing required parameters''), idle_world) \<and>
   sent (snd (initiateSession (answering 40 (Resolved quota_body)) demo_client
       (JStr ''f'') JUndef (JStr ''hello'') JUndef JUndef JUndef JUndef idle_world)) = []"
  using
    initiateSession_missing_parameter [of "JStr ''''" "JStr ''g''" "JStr ''hello''"
      "answering 40 (Resolved quota_body)" demo_client JUndef JUndef JUndef JUndef idle_world]
    initiateSession_missing_parameter [of "JStr ''f''" JUndef "JStr ''hello''"
      "answering 40 (Resolved quota_body)" demo_client JUndef JUndef JUndef JUndef idle_world]
  by (simp add: empty_or_missing_def idle_world_def)

text \<open>A request that is answered with a successful response.\<close>

lemma post_ok:
  assumes "build_request c ep body = Inr req"
    and "net (clock w) req = (latency, Resolved r)" and "ok r"
  shows "post net c ep body w =
           (json_of r, w \<lparr> clock := clock w + latency, sent := sent w @ [req] \<rparr>)"
  using assms by (simp add: post_def Let_def)

lemma initiateSession_answered:
  assumes "truthy flowId" and "truthy langflowId" and "truthy inputValue"
    and "session_request c flowId langflowId inputValue inputType outputType stream tweaks
           = Inr req"
    and "net (clock w) req = (latency, Resolved r)" and "ok r"
  shows "initiateSession net c flowId langflowId inputValue inputType outputType stream tweaks w
           = (json_of r, w \<lparr> clock := clock w + latency, sent := sent w @ [req] \<rparr>)"
proof -
  let ?body = "session_body inputValue (dflt (JStr ''chat'') inputType)
                 (dflt (JStr ''chat'') outputType) (dflt (JObj []) tweaks)"
  from assms(4) obtain ep
    where ep: "session_endpoint langflowId flowId (dflt (JBool False) stream) = Inr ep"
      and req: "build_request c ep ?body = Inr req"
    by (auto simp: session_request_def and_then_def split: sum.splits)
  have "post net c ep ?body w
          = (json_of r, w \<lparr> clock := clock w + latency, sent := sent w @ [req] \<rparr>)"
    using req assms(5,6) by (rule post_ok)
  then show ?thesis
    using assms(1-3) ep by (simp add: initiateSession_def Let_def falsy_def)
qed

text \<open>
  Claim C1, at failing inputs. A response with status 500 whose body is the JSON value
  \<^verbatim>\<open>null\<close>: \<^verbatim>\<open>response.json()\<close> settles with \<^verbatim>\<open>null\<close>, reading \<^verbatim>\<open>errorData.message\<close> throws a
  TypeError inside the \<^verbatim>\<open>try\<close>, and the \<^verbatim>\<open>catch\<close> wraps that: the error carries neither the
  status code nor the status text. The same happens with the body
  \<^verbatim>\<open>{"message":{"toString":true}}\<close>, whose message the template literal cannot convert. A
  response with status 429 and the body \<^verbatim>\<open>{"message":"quota exceeded"}\<close> shows what the code
  does otherwise.
\<close>

theorem upstream_error_loses_status_code:
  "fst (initiateSession (answering 40 (Resolved null_body)) demo_client
          (JStr ''f'') (JStr ''g'') (JStr ''hello'') JUndef JUndef JUndef JUndef idle_world)
     = Inl (JsError PlainError (''Request failed: Cannot read properties of null (reading ''
              @ [CHR 0x27] @ ''message'' @ [CHR 0x27] @ '')''))
   \<and> fst (initiateSession (answering 40 (Resolved unconvertible_body)) demo_client
          (JStr ''f'') (JStr ''g'') (JStr ''hello'') JUndef JUndef JUndef JUndef idle_world)
     = Inl (JsError PlainError ''Request failed: Cannot convert object to primitive value'')
   \<and> fst (initiateSession (answering 40 (Resolved quota_body)) demo_client
          (JStr ''f'') (JStr ''g'') (JStr ''hello'') JUndef JUndef JUndef JUndef idle_world)
     = Inl (JsError PlainError ''Request failed: HTTP 429: quota exceeded'')"
  by (simp add: initiateSession_def post_def build_request_def session_endpoint_def
        and_then_def Let_def falsy_def dflt_def answering_def null_body_def
        unconvertible_body_def quota_body_def demo_client_def idle_world_def ok_def
        member_def nullish_def cannot_read_def cannot_convert_def request_failed_def
        new_Error_def get_prop_def js_or_def show_nat_429)

section \<open>The stream consumer: properties\<close>

lemma handleStream_fresh:
  "handleStream any_EventSource (JStr ''https://api.example/stream/1'') 0 = Inr fresh_stream"
  by (simp add: handleStream_def any_EventSource_def falsy_def resetHeartbeat_def logged_def
        fresh_stream_def heartbeat_window_def)





text \<open>
  Claim C2, at a failing input. The payload \<^verbatim>\<open>{"chunk":"hi"}\<close> parses and \<^verbatim>\<open>onUpdate\<close> is
  called with the parsed object; the consumer's \<^verbatim>\<open>onUpdate\<close> throws. The exception does not
  leave \<^verbatim>\<open>onmessage\<close> (the first component is \<open>None\<close>): the \<^verbatim>\<open>catch\<close> written for the parser
  takes it, calls \<^verbatim>\<open>onError\<close> with \<^verbatim>\<open>Failed to parse stream data: consumer failed\<close> and closes
  the connection.
\<close>

theorem onmessage_catches_consumer_exception:
  "onmessage failing_consumer 1000 (Inr (JObj [(''chunk'', JStr ''hi'')])) fresh_stream
     = (None,
        \<lparr> stream_url = JStr ''https://api.example/stream/1'', closed = True,
          heartbeatTimeout = Some 31000, armed = True,
          calls = [SetTimeout 30000, ClearTimeout, SetTimeout 31000,
                   OnUpdate (JObj [(''chunk'', JStr ''hi'')]),
                   OnError (ErrObj (new_Error ''Failed to parse stream data: consumer failed'')),
                   EsClose] \<rparr>)"
  by (simp add: onmessage_def Let_def failing_consumer_def fresh_stream_def resetHeartbeat_def
        clearTimeout_def logged_def call_onError_def es_close_def heartbeat_window_def
        new_Error_def)

text \<open>
  Claim C3, at a failing input. A stream opened at time 0 receives at 1000 a payload that
  is not JSON, then nothing. The message resets the timer before the payload is parsed;
  the \<^verbatim>\<open>catch\<close> reports the malformed event and closes the connection, and does not clear
  the timer, as the handlers of the error event and of the close event do. At 31000 the
  timer fires on the closed stream: \<^verbatim>\<open>close\<close> is called a second time and \<^verbatim>\<open>onError\<close> is
  called with \<^verbatim>\<open>Stream timeout\<close>.
\<close>

theorem malformed_event_leaves_timer_armed:
  "run_until quiet [(1000, Message garbled)] 31000 fresh_stream
     = (None,
        \<lparr> stream_url = JStr ''https://api.example/stream/1'', closed = True,
          heartbeatTimeout = Some 31000, armed = False,
          calls = [SetTimeout 30000, ClearTimeout, SetTimeout 31000,
                   OnError (ErrObj (new_Error
                     ''Failed to parse stream data: Unexpected token h in JSON at position 0'')),
                   EsClose,
                   EsClose, OnError (ErrObj (new_Error ''Stream timeout''))] \<rparr>)"
  by (simp add: run_until_def fire_due_def dispatch_def onmessage_def Let_def quiet_def
        garbled_def fresh_stream_def resetHeartbeat_def clearTimeout_def logged_def
        call_onError_def es_close_def heartbeat_fires_def heartbeat_window_def new_Error_def)

section \<open>The insights lookup: properties\<close>

subsection \<open>The nested path\<close>

lemma dflt_idem [simp]: "dflt d (dflt d v) = dflt d v"
  by (simp add: dflt_def)

lemma opt_truthy: "truthy (opt f v) \<Longrightarrow> \<not> nullish v \<and> opt f v = f v"
  by (cases "nullish v") (simp_all add: opt_def)

lemma opt_not_nullish: "\<not> nullish (opt f v) \<Longrightarrow> \<not> nullish v \<and> opt f v = f v"
  by (cases "nullish v") (simp_all add: opt_def nullish_def)

lemma member_present: "\<not> nullish v \<Longrightarrow> member k v = Inr (get_prop k v)"
  by (simp add: member_def)

lemma item0_present: "\<not> nullish v \<Longrightarrow> item0 v = Inr (index0 v)"
  by (simp add: item0_def)

text \<open>
  Where the optional chain ends in a truthy value, no step of it met \<^verbatim>\<open>null\<close> or
  \<^verbatim>\<open>undefined\<close>, and the plain chain of the next line reads the same value.
\<close>

lemma text_of_present:
  assumes "truthy (text_at r)"
  shows "text_of r = Inr (text_at r)"
proof -
  let ?a = "opt (get_prop ''outputs'') r"
  let ?b = "opt index0 ?a"
  let ?c = "opt (get_prop ''outputs'') ?b"
  let ?d = "opt index0 ?c"
  let ?e = "opt (get_prop ''outputs'') ?d"
  let ?f = "opt (get_prop ''message'') ?e"
  let ?g = "opt (get_prop ''message'') ?f"
  from assms have g: "\<not> nullish ?g" and t: "text_at r = get_prop ''text'' ?g"
    using opt_truthy [of "get_prop ''text''" ?g] by (simp_all add: text_at_def)
  from g have f: "\<not> nullish ?f" and g': "?g = get_prop ''message'' ?f"
    using opt_not_nullish by blast+
  from f have e: "\<not> nullish ?e" and f': "?f = get_prop ''message'' ?e"
    using opt_not_nullish by blast+
  from e have d: "\<not> nullish ?d" and e': "?e = get_prop ''outputs'' ?d"
    using opt_not_nullish by blast+
  from d have c: "\<not> nullish ?c" and d': "?d = index0 ?c"
    using opt_not_nullish by blast+
  from c have b: "\<not> nullish ?b" and c': "?c = get_prop ''outputs'' ?b"
    using opt_not_nullish by blast+
  from b have a: "\<not> nullish ?a" and b': "?b = index0 ?a"
    using opt_not_nullish by blast+
  from a have r: "\<not> nullish r" and a': "?a = get_prop ''outputs'' r"
    using opt_not_nullish by blast+
  have 1: "member ''outputs'' r = Inr ?a" using r a' by (simp add: member_present)
  have 2: "item0 ?a = Inr ?b" using a b' by (simp add: item0_present)
  have 3: "member ''outputs'' ?b = Inr ?c" using b c' by (simp add: member_present)
  have 4: "item0 ?c = Inr ?d" using c d' by (simp add: item0_present)
  have 5: "member ''outputs'' ?d = Inr ?e" using d e' by (simp add: member_present)
  have 6: "member ''message'' ?e = Inr ?f" using e f' by (simp add: member_present)
  have 7: "member ''message'' ?f = Inr ?g" using f g' by (simp add: member_present)
  have 8: "member ''text'' ?g = Inr (text_at r)" using g t by (simp add: member_present)
  show ?thesis
    unfolding text_of_def by (simp add: and_then_def 1 2 3 4 5 6 7 8)
qed


lemma stream_url_of_present:
  assumes "truthy (stream_url_at r)"
  shows "stream_url_of r = Inr (stream_url_at r)"
proof -
  let ?a = "opt (get_prop ''outputs'') r"
  let ?b = "opt index0 ?a"
  let ?c = "opt (get_prop ''outputs'') ?b"
  let ?d = "opt index0 ?c"
  let ?e = "opt (get_prop ''artifacts'') ?d"
  from assms have e: "\<not> nullish ?e" and t: "stream_url_at r = get_prop ''stream_url'' ?e"
    using opt_truthy [of "get_prop ''stream_url''" ?e] by (simp_all add: stream_url_at_def)
  from e have d: "\<not> nullish ?d" and e': "?e = get_prop ''artifacts'' ?d"
    using opt_not_nullish by blast+
  from d have c: "\<not> nullish ?c" and d': "?d = index0 ?c"
    using opt_not_nullish by blast+
  from c have b: "\<not> nullish ?b" and c': "?c = get_prop ''outputs'' ?b"
    using opt_not_nullish by blast+
  from b have a: "\<not> nullish ?a" and b': "?b = index0 ?a"
    using opt_not_nullish by blast+
  from a have r: "\<not> nullish r" and a': "?a = get_prop ''outputs'' r"
    using opt_not_nullish by blast+
  have 1: "member ''outputs'' r = Inr ?a" using r a' by (simp add: member_present)
  have 2: "item0 ?a = Inr ?b" using a b' by (simp add: item0_present)
  have 3: "member ''outputs'' ?b = Inr ?c" using b c' by (simp add: member_present)
  have 4: "item0 ?c = Inr ?d" using c d' by (simp add: item0_present)
  have 5: "member ''artifacts'' ?d = Inr ?e" using d e' by (simp add: member_present)
  have 6: "member ''stream_url'' ?e = Inr (stream_url_at r)"
    using e t by (simp add: member_present)
  show ?thesis
    unfolding stream_url_of_def by (simp add: and_then_def 1 2 3 4 5 6)
qed

lemma text_at_answer_with [simp]: "text_at (answer_with t) = t"
  by (simp add: text_at_def answer_with_def opt_def nullish_def get_prop_def index0_def)

lemma stream_url_at_answer_with [simp]: "stream_url_at (answer_with t) = JUndef"
  by (simp add: stream_url_at_def answer_with_def opt_def nullish_def get_prop_def index0_def)

lemma stream_offer_paths:
  "text_at stream_offer = JUndef"
  "stream_url_at stream_offer = JStr ''https://api.example/stream/1''"
  by (simp_all add: text_at_def stream_url_at_def stream_offer_def opt_def nullish_def
        get_prop_def index0_def)

subsection \<open>The cache\<close>

lemma cache_get_set:
  "cache_get (cache_set c t0 k v) t k = (if t0 + 3600000 < t then JUndef else v)"
  by (simp add: cache_get_def cache_set_def stdTTL_def)

lemma cache_expire_hit:
  "c k = Some (v, expires) \<Longrightarrow> t \<le> expires \<Longrightarrow> cache_expire c t k = c \<and> cache_get c t k = v"
  by (simp add: cache_get_def cache_expire_def)


subsection \<open>A lookup that reaches the upstream service\<close>

lemma session_request_dflt:
  "session_request c f l v (dflt (JStr ''chat'') it) (dflt (JStr ''chat'') ot)
     (dflt (JBool False) st) tw = session_request c f l v it ot st tw"
  by (simp add: session_request_def)

text \<open>
  The three ways of \<^verbatim>\<open>runFlow\<close> after a successful response: without a stream it returns
  the response; with one it returns the handle, where the runtime constructs the event
  source, and fails with the constructor's error where it does not.
\<close>

lemma runFlow_answered:
  assumes "truthy flowId" and "truthy langflowId" and "truthy inputValue"
    and "session_request c flowId langflowId inputValue inputType outputType stream tweaks
           = Inr req"
    and "net (clock w) req = (latency, Resolved r)"
    and "ok r" and "json_of r = Inr body"
  shows "snd (runFlow construct net c flowId langflowId inputValue inputType outputType tweaks
                stream w)
           = w \<lparr> clock := clock w + latency, sent := sent w @ [req] \<rparr>"
    and "falsy (dflt (JBool False) stream) \<or> falsy (stream_url_at body) \<Longrightarrow>
         fst (runFlow construct net c flowId langflowId inputValue inputType outputType tweaks
                stream w)
           = Inr (Response body)"
    and "truthy (dflt (JBool False) stream) \<Longrightarrow> truthy (stream_url_at body) \<Longrightarrow>
         construct (stream_url_at body) = None \<Longrightarrow>
         \<exists>es. fst (runFlow construct net c flowId langflowId inputValue inputType outputType
                     tweaks stream w)
           = Inr (StreamHandle es)"
    and "truthy (dflt (JBool False) stream) \<Longrightarrow> truthy (stream_url_at body) \<Longrightarrow>
         construct (stream_url_at body) = Some thrown \<Longrightarrow>
         fst (runFlow construct net c flowId langflowId inputValue inputType outputType tweaks
                stream w)
           = Inl (flow_failed thrown)"
proof -
  have request:
    "session_request c flowId langflowId inputValue (dflt (JStr ''chat'') inputType)
       (dflt (JStr ''chat'') outputType) (dflt (JBool False) stream) (dflt (JObj []) tweaks)
     = Inr req"
    using assms(4) by (simp add: session_request_def)
  have started:
    "initiateSession net c flowId langflowId inputValue (dflt (JStr ''chat'') inputType)
       (dflt (JStr ''chat'') outputType) (dflt (JBool False) stream) (dflt (JObj []) tweaks) w
     = (Inr body, w \<lparr> clock := clock w + latency, sent := sent w @ [req] \<rparr>)"
    using initiateSession_answered [where net = net and w = w, OF assms(1-3) request assms(5,6)]
      assms(7)
    by simp
  show "snd (runFlow construct net c flowId langflowId inputValue inputType outputType tweaks
                stream w)
           = w \<lparr> clock := clock w + latency, sent := sent w @ [req] \<rparr>"
    by (simp add: runFlow_def Let_def started split: sum.splits)
  show "falsy (dflt (JBool False) stream) \<or> falsy (stream_url_at body) \<Longrightarrow>
         fst (runFlow construct net c flowId langflowId inputValue inputType outputType tweaks
                stream w)
           = Inr (Response body)"
    by (auto simp: runFlow_def Let_def started falsy_def)
  show "truthy (dflt (JBool False) stream) \<Longrightarrow> truthy (stream_url_at body) \<Longrightarrow>
         construct (stream_url_at body) = None \<Longrightarrow>
         \<exists>es. fst (runFlow construct net c flowId langflowId inputValue inputType outputType
                     tweaks stream w)
           = Inr (StreamHandle es)"
    by (simp add: runFlow_def Let_def started stream_url_of_present and_then_def
          handleStream_def falsy_def)
  show "truthy (dflt (JBool False) stream) \<Longrightarrow> truthy (stream_url_at body) \<Longrightarrow>
         construct (stream_url_at body) = Some thrown \<Longrightarrow>
         fst (runFlow construct net c flowId langflowId inputValue inputType outputType tweaks
                stream w)
           = Inl (flow_failed thrown)"
    by (simp add: runFlow_def Let_def started stream_url_of_present and_then_def
          handleStream_def falsy_def)
qed

lemma new_insights_client:
  "token \<noteq> [] \<Longrightarrow>
   new_LangflowClient insights_baseURL (JStr token) = Inr (insights_client token)"
  by (simp add: new_LangflowClient_def insights_client_def insights_baseURL_def falsy_def
        and_then_def)

text \<open>With a falsy \<^verbatim>\<open>stream\<close> argument the request of the lookup can always be built.\<close>

lemma insights_request_falsy_stream:
  assumes "falsy (dflt (JBool False) stream)"
  shows "\<exists>req. insights_request token keyword inputType outputType stream = Inr req"
  using assms
  by (cases "dflt (JBool False) stream")
     (simp_all add: insights_request_def session_request_def session_endpoint_def
        build_request_def insights_client_def insights_flowId_def insights_langflowId_def
        insights_baseURL_def and_then_def falsy_def)

text \<open>
  A lookup that misses the cache, finds the token and gets a successful response with a
  JSON body. Where \<^verbatim>\<open>runFlow\<close> does not start a stream, or the runtime constructs the event
  source: it stores and returns the value at the nested path when the stream flag is falsy
  and that value is truthy, and fails with \<^verbatim>\<open>Invalid response format\<close> otherwise. Where the
  constructor throws, it fails with the wrapped error of the constructor.
\<close>

lemma getInsights_unfold:
  assumes key: "cacheKey inputValue = Inr key"
    and miss: "falsy (cache_get (cache w) (clock w) key)"
    and token: "MODEL_TOKEN ev = Some token" "token \<noteq> []"
  shows "getInsights ev net inputValue inputType outputType stream w =
       (let ran = runFlow (new_EventSource ev) net (insights_client token) insights_flowId
                    insights_langflowId inputValue (dflt (JStr ''chat'') inputType)
                    (dflt (JStr ''chat'') outputType) insights_tweaks
                    (dflt (JBool False) stream)
                    (w \<lparr> cache := cache_expire (cache w) (clock w) key \<rparr>)
        in case fst ran of
          Inl error \<Rightarrow> (Inl (insights_failed error), snd ran)
        | Inr response \<Rightarrow>
            if falsy (dflt (JBool False) stream) \<and>
               truthy (case response of Response r \<Rightarrow> text_at r | StreamHandle es \<Rightarrow> JUndef)
            then
              (case (case response of Response r \<Rightarrow> text_of r | StreamHandle es \<Rightarrow> Inr JUndef) of
                 Inl error \<Rightarrow> (Inl (insights_failed error), snd ran)
               | Inr output \<Rightarrow>
                   (Inr output,
                    (snd ran) \<lparr> cache := cache_set (cache (snd ran)) (clock (snd ran))
                                           key output \<rparr>))
            else (Inl (insights_failed (new_Error ''Invalid response format'')), snd ran))"
  using key miss token
  by (simp add: getInsights_def Let_def falsy_def new_insights_client)

lemma getInsights_answered:
  assumes key: "cacheKey inputValue = Inr key"
    and miss: "falsy (cache_get (cache w) (clock w) key)"
    and token: "MODEL_TOKEN ev = Some token" "token \<noteq> []"
    and keyword: "truthy inputValue"
    and request: "insights_request token inputValue inputType outputType stream = Inr req"
    and answer: "net (clock w) req = (latency, Resolved r)"
    and success: "ok r" "json_of r = Inr body"
  shows "falsy (dflt (JBool False) stream) \<or> falsy (stream_url_at body)
           \<or> new_EventSource ev (stream_url_at body) = None \<Longrightarrow>
         getInsights ev net inputValue inputType outputType stream w =
           (let w1 = after_call w key latency req
            in if falsy (dflt (JBool False) stream) \<and> truthy (text_at body)
               then (Inr (text_at body),
                     w1 \<lparr> cache := cache_set (cache w1) (clock w1) key (text_at body) \<rparr>)
               else (Inl (new_Error ''Failed to get insights: Invalid response format''), w1))"
    and "truthy (dflt (JBool False) stream) \<Longrightarrow> truthy (stream_url_at body) \<Longrightarrow>
         new_EventSource ev (stream_url_at body) = Some thrown \<Longrightarrow>
         getInsights ev net inputValue inputType outputType stream w =
           (Inl (new_Error (''Failed to get insights: Flow execution failed: '' @ message thrown)),
            after_call w key latency req)"
proof -
  let ?w0 = "w \<lparr> cache := cache_expire (cache w) (clock w) key \<rparr>"
  let ?ran = "runFlow (new_EventSource ev) net (insights_client token) insights_flowId
                insights_langflowId inputValue (dflt (JStr ''chat'') inputType)
                (dflt (JStr ''chat'') outputType) insights_tweaks (dflt (JBool False) stream) ?w0"
  have ids: "truthy insights_flowId" "truthy insights_langflowId"
    by (simp_all add: insights_flowId_def insights_langflowId_def)
  have request0:
    "session_request (insights_client token) insights_flowId insights_langflowId
        inputValue (dflt (JStr ''chat'') inputType) (dflt (JStr ''chat'') outputType)
        (dflt (JBool False) stream) insights_tweaks = Inr req"
    using request by (simp add: session_request_dflt insights_request_def)
  have answer0: "net (clock ?w0) req = (latency, Resolved r)"
    using answer by simp
  note ran = runFlow_answered [where net = net and w = ?w0
      and construct = "new_EventSource ev", OF ids keyword request0 answer0 success]
  have w1: "snd ?ran = after_call w key latency req"
    using ran(1) by (simp add: after_call_def)
  note unfold = getInsights_unfold [where net = net and w = w and inputType = inputType
      and outputType = outputType and stream = stream, OF key miss token]
  have failed: "insights_failed (new_Error ''Invalid response format'')
                  = new_Error ''Failed to get insights: Invalid response format''"
    by (simp add: insights_failed_def new_Error_def)
  show "falsy (dflt (JBool False) stream) \<or> falsy (stream_url_at body)
           \<or> new_EventSource ev (stream_url_at body) = None \<Longrightarrow>
         getInsights ev net inputValue inputType outputType stream w =
           (let w1 = after_call w key latency req
            in if falsy (dflt (JBool False) stream) \<and> truthy (text_at body)
               then (Inr (text_at body),
                     w1 \<lparr> cache := cache_set (cache w1) (clock w1) key (text_at body) \<rparr>)
               else (Inl (new_Error ''Failed to get insights: Invalid response format''), w1))"
  proof -
    assume reach: "falsy (dflt (JBool False) stream) \<or> falsy (stream_url_at body)
           \<or> new_EventSource ev (stream_url_at body) = None"
    show ?thesis
    proof (cases "falsy (dflt (JBool False) stream)")
      case True
      then have "fst ?ran = Inr (Response body)" using ran(2) by simp
      then show ?thesis
        unfolding unfold using True by (simp add: Let_def w1 text_of_present failed)
    next
      case False
      then have stream: "truthy (dflt (JBool False) stream)" by (simp add: falsy_def)
      have "(\<exists>es. fst ?ran = Inr (StreamHandle es)) \<or> fst ?ran = Inr (Response body)"
      proof (cases "truthy (stream_url_at body)")
        case True
        with reach False have "new_EventSource ev (stream_url_at body) = None"
          by (simp add: falsy_def)
        with stream True show ?thesis using ran(3) by simp
      next
        case False
        then show ?thesis using ran(2) by (simp add: falsy_def)
      qed
      then show ?thesis
        unfolding unfold using False by (auto simp: Let_def w1 failed)
    qed
  qed
  show "truthy (dflt (JBool False) stream) \<Longrightarrow> truthy (stream_url_at body) \<Longrightarrow>
         new_EventSource ev (stream_url_at body) = Some thrown \<Longrightarrow>
         getInsights ev net inputValue inputType outputType stream w =
           (Inl (new_Error (''Failed to get insights: Flow execution failed: '' @ message thrown)),
            after_call w key latency req)"
  proof -
    assume "truthy (dflt (JBool False) stream)" and "truthy (stream_url_at body)"
      and "new_EventSource ev (stream_url_at body) = Some thrown"
    then have "fst ?ran = Inl (flow_failed thrown)" using ran(4) by simp
    then show ?thesis
      unfolding unfold
      by (simp add: Let_def w1 insights_failed_def flow_failed_def new_Error_def)
  qed
qed

subsection \<open>The cache is touched by the lookup only\<close>









lemma rust_request_facts:
  "insights_request ''secret'' (JStr ''rust'') JUndef JUndef JUndef = Inr (rust_request ''false'')"
  "insights_request ''secret'' (JStr ''rust'') JUndef JUndef (JBool True)
     = Inr (rust_request ''true'')"
  by (simp_all add: insights_request_def session_request_def session_endpoint_def
        session_body_def build_request_def insights_client_def insights_flowId_def
        insights_langflowId_def insights_baseURL_def and_then_def dflt_def rust_request_def
        insights_tweaks_def)

text \<open>
  In a runtime without \<^verbatim>\<open>EventSource\<close>, a lookup in stream mode whose response offers a
  stream URL fails with the wrapped ReferenceError of the constructor.
\<close>

lemma getInsights_without_EventSource:
  "fst (getInsights configured (answering 40 (Resolved (replying stream_offer)))
          (JStr ''rust'') JUndef JUndef (JBool True) idle_world)
     = Inl (new_Error
         ''Failed to get insights: Flow execution failed: EventSource is not defined'')"
  using getInsights_answered(2) [where inputValue = "JStr ''rust''"
      and key = "''insights-rust''" and w = idle_world and ev = configured
      and token = "''secret''" and inputType = JUndef and outputType = JUndef
      and stream = "JBool True" and req = "rust_request ''true''"
      and net = "answering 40 (Resolved (replying stream_offer))"
      and latency = 40 and r = "replying stream_offer" and body = stream_offer
      and thrown = "JsError ReferenceError ''EventSource is not defined''"]
  by (simp add: idle_world_def configured_def no_EventSource_def answering_def replying_def
        ok_def falsy_def dflt_def cacheKey_def and_then_def cache_get_def rust_request_facts
        stream_offer_paths)

subsection \<open>The claims about the lookup\<close>

text \<open>
  Claim C4, as amended. A lookup with a keyword that is not cached, with the token
  configured, in non-stream mode (the \<^verbatim>\<open>stream\<close> argument falsy or missing), whose request
  is answered with a successful response that holds a truthy value, such as a non-empty
  text, at \<^verbatim>\<open>outputs[0].outputs[0].outputs.message.message.text\<close>: it returns exactly that
  value, and afterwards the cache holds it under the key of the keyword, with an expiry
  one hour (3600 * 1000 milliseconds) after the time it was stored. A lookup up to that
  time finds it, a later one does not. The key and the request are those the code builds
  from the keyword and the arguments.
\<close>

theorem getInsights_stores_text:
  assumes "cacheKey keyword = Inr key"
    and "falsy (cache_get (cache w) (clock w) key)"
    and "MODEL_TOKEN ev = Some token" and "token \<noteq> []"
    and "truthy keyword"
    and "insights_request token keyword inputType outputType stream = Inr req"
    and "net (clock w) req = (latency, Resolved r)"
    and "ok r" and "json_of r = Inr body"
    and "falsy (dflt (JBool False) stream)"
    and "truthy (text_at body)"
  shows "fst (getInsights ev net keyword inputType outputType stream w) = Inr (text_at body)
       \<and> cache (snd (getInsights ev net keyword inputType outputType stream w)) key
           = Some (text_at body, clock w + latency + 3600 * 1000)
       \<and> (\<forall>t. t \<le> clock w + latency + 3600 * 1000 \<longrightarrow>
            cache_get (cache (snd (getInsights ev net keyword inputType outputType stream w))) t
              key = text_at body)
       \<and> (\<forall>t. clock w + latency + 3600 * 1000 < t \<longrightarrow>
            cache_get (cache (snd (getInsights ev net keyword inputType outputType stream w))) t
              key = JUndef)"
proof -
  have "getInsights ev net keyword inputType outputType stream w =
          (let w1 = after_call w key latency req
           in (Inr (text_at body),
               w1 \<lparr> cache := cache_set (cache w1) (clock w1) key (text_at body) \<rparr>))"
    using getInsights_answered(1) [where net = net and w = w, OF assms(1-9)] assms(10,11)
    by (simp add: Let_def)
  then show ?thesis
    by (simp add: Let_def after_call_def cache_get_set) (simp add: cache_set_def stdTTL_def)
qed

theorem getInsights_stores_text_witness:
  "cacheKey (JStr ''rust'') = Inr ''insights-rust''
   \<and> insights_request ''secret'' (JStr ''rust'') JUndef JUndef JUndef = Inr (rust_request ''false'')
   \<and> fst (getInsights configured
          (answering 40 (Resolved (replying (answer_with (JStr ''Rust is trending'')))))
          (JStr ''rust'') JUndef JUndef JUndef idle_world) = Inr (JStr ''Rust is trending'')
   \<and> cache (snd (getInsights configured
          (answering 40 (Resolved (replying (answer_with (JStr ''Rust is trending'')))))
          (JStr ''rust'') JUndef JUndef JUndef idle_world)) ''insights-rust''
       = Some (JStr ''Rust is trending'', 3600040)"
  using getInsights_stores_text [where keyword = "JStr ''rust''" and key = "''insights-rust''"
      and w = idle_world and ev = configured and token = "''secret''"
      and inputType = JUndef and outputType = JUndef and stream = JUndef
      and req = "rust_request ''false''"
      and net = "answering 40 (Resolved (replying (answer_with (JStr ''Rust is trending''))))"
      and latency = 40 and r = "replying (answer_with (JStr ''Rust is trending''))"
      and body = "answer_with (JStr ''Rust is trending'')"]
  by (simp add: idle_world_def configured_def answering_def replying_def ok_def falsy_def
        dflt_def cacheKey_def cache_get_def and_then_def rust_request_facts)

text \<open>
  The claim as the specification states it fails in stream mode: the same keyword, token
  and response, with the \<^verbatim>\<open>stream\<close> argument \<^verbatim>\<open>true\<close>, give the error
  \<^verbatim>\<open>Invalid response format\<close>, and nothing is cached. It fails as well, in non-stream
  mode, for a response whose text at the nested path is the empty string.
\<close>

theorem getInsights_stores_text_counterexample:
  "fst (getInsights configured
          (answering 40 (Resolved (replying (answer_with (JStr ''Rust is trending'')))))
          (JStr ''rust'') JUndef JUndef (JBool True) idle_world)
     = Inl (new_Error ''Failed to get insights: Invalid response format'')
   \<and> cache (snd (getInsights configured
          (answering 40 (Resolved (replying (answer_with (JStr ''Rust is trending'')))))
          (JStr ''rust'') JUndef JUndef (JBool True) idle_world)) ''insights-rust'' = None
   \<and> fst (getInsights configured (answering 40 (Resolved (replying (answer_with (JStr '''')))))
          (JStr ''rust'') JUndef JUndef JUndef idle_world)
     = Inl (new_Error ''Failed to get insights: Invalid response format'')
   \<and> cache (snd (getInsights configured
          (answering 40 (Resolved (replying (answer_with (JStr '''')))))
          (JStr ''rust'') JUndef JUndef JUndef idle_world)) ''insights-rust'' = None"
  using
    getInsights_answered(1) [where inputValue = "JStr ''rust''" and key = "''insights-rust''"
      and w = idle_world and ev = configured and token = "''secret''"
      and inputType = JUndef and outputType = JUndef and stream = "JBool True"
      and req = "rust_request ''true''"
      and net = "answering 40 (Resolved (replying (answer_with (JStr ''Rust is trending''))))"
      and latency = 40 and r = "replying (answer_with (JStr ''Rust is trending''))"
      and body = "answer_with (JStr ''Rust is trending'')"]
    getInsights_answered(1) [where inputValue = "JStr ''rust''" and key = "''insights-rust''"
      and w = idle_world and ev = configured and token = "''secret''"
      and inputType = JUndef and outputType = JUndef and stream = JUndef
      and req = "rust_request ''false''"
      and net = "answering 40 (Resolved (replying (answer_with (JStr ''''))))"
      and latency = 40 and r = "replying (answer_with (JStr ''''))"
      and body = "answer_with (JStr '''')"]
  by (simp add: idle_world_def configured_def answering_def replying_def ok_def falsy_def
        dflt_def cacheKey_def Let_def after_call_def cache_expire_def cache_get_def
        and_then_def rust_request_facts)

text \<open>
  Claim C5. The key of the cache is \<^verbatim>\<open>insights-\<close> followed by the keyword. When the cache
  holds under that key a value (truthy, as every value the lookup stores is) whose entry
  has not expired, the lookup returns that value and leaves the world as it was, so no
  request is sent: whatever \<^verbatim>\<open>inputType\<close>, \<^verbatim>\<open>outputType\<close> and \<^verbatim>\<open>stream\<close> are, whether or not
  the token is configured, whatever the network would answer and the runtime provides.
\<close>

theorem getInsights_cache_hit:
  assumes "cacheKey keyword = Inr key"
    and "cache w key = Some (v, expires)"
    and "clock w \<le> expires" and "truthy v"
  shows "(\<exists>s. js_to_string keyword = Inr s \<and> key = ''insights-'' @ s)
       \<and> getInsights ev net keyword inputType outputType stream w = (Inr v, w)"
proof -
  have "\<exists>s. js_to_string keyword = Inr s \<and> key = ''insights-'' @ s"
    using assms(1) by (auto simp: cacheKey_def and_then_def split: sum.splits)
  moreover have "getInsights ev net keyword inputType outputType stream w = (Inr v, w)"
    using assms cache_expire_hit [where c = "cache w" and k = key, OF assms(2,3)]
    by (simp add: getInsights_def Let_def)
  ultimately show ?thesis ..
qed

theorem getInsights_cache_hit_witness:
  "cacheKey (JStr ''rust'') = Inr ''insights-rust''
   \<and> cache warm_world ''insights-rust'' = Some (JStr ''X'', 5000)
   \<and> getInsights unconfigured (answering 40 (Rejected (JsError TypeError ''fetch failed'')))
       (JStr ''rust'') (JStr ''text'') (JStr ''json'') (JBool True) warm_world
     = (Inr (JStr ''X''), warm_world)
   \<and> getInsights configured
       (answering 40 (Resolved (replying (answer_with (JStr ''Rust is trending'')))))
       (JStr ''rust'') JUndef JUndef JUndef warm_world
     = (Inr (JStr ''X''), warm_world)"
  using
    getInsights_cache_hit [where keyword = "JStr ''rust''" and key = "''insights-rust''"
      and w = warm_world and v = "JStr ''X''" and expires = 5000 and ev = unconfigured
      and net = "answering 40 (Rejected (JsError TypeError ''fetch failed''))"
      and inputType = "JStr ''text''" and outputType = "JStr ''json''" and stream = "JBool True"]
    getInsights_cache_hit [where keyword = "JStr ''rust''" and key = "''insights-rust''"
      and w = warm_world and v = "JStr ''X''" and expires = 5000 and ev = configured
      and net = "answering 40 (Resolved (replying (answer_with (JStr ''Rust is trending''))))"
      and inputType = JUndef and outputType = JUndef and stream = JUndef]
  by (simp add: warm_world_def cacheKey_def and_then_def)






section \<open>The HTTP gateway: properties\<close>

text \<open>
  Claim C9. For a keyword that passes the schema of the route (it is not empty): whatever
  \<^verbatim>\<open>getInsights\<close> throws inside the handler of \<^verbatim>\<open>GET /insights/:keyword\<close>, the handler throws
  an error with status code 500 that carries the message, and the reply of the gateway is
  the status 500 with the payload \<^verbatim>\<open>{success: false, error: "Internal Server Error"}\<close>: the
  same reply for every error, so nothing of the error's message reaches the client. A
  validation error passes through with its own message: the empty keyword is answered with
  status 400 and the message of the validation, and the handler does not run. So is every
  error whose status code is neither missing, 0 nor 500.
\<close>

theorem gateway_error_envelope:
  "(keyword \<noteq> [] \<and> fst (getInsights ev net (JStr keyword) JUndef JUndef JUndef w) = Inl thrown
      \<longrightarrow> fst (insights_handler ev net keyword w) = Inl (createError 500 (message thrown))
        \<and> fst (serve_insights complaint ev net keyword w)
            = \<lparr> reply_status = 500,
                reply_payload = JObj [(''success'', JBool False),
                                      (''error'', JStr ''Internal Server Error'')] \<rparr>)
   \<and> (keyword \<noteq> [] \<and> fst (insights_handler ev net keyword w) = Inl error
      \<longrightarrow> fst (serve_insights complaint ev net keyword w)
            = \<lparr> reply_status = 500,
                reply_payload = JObj [(''success'', JBool False),
                                      (''error'', JStr ''Internal Server Error'')] \<rparr>)
   \<and> (keyword = []
      \<longrightarrow> serve_insights complaint ev net keyword w
            = (\<lparr> reply_status = 400,
                 reply_payload = JObj [(''success'', JBool False),
                                       (''error'', JStr complaint)] \<rparr>, w))
   \<and> (statusCode e = Some n \<and> n \<noteq> 0 \<and> n \<noteq> 500
      \<longrightarrow> errorHandler e
            = \<lparr> reply_status = n,
                reply_payload = JObj [(''success'', JBool False),
                                      (''error'', JStr (error_message e))] \<rparr>)"
  by (auto simp: serve_insights_def validate_params_def insights_handler_def errorHandler_def
        createError_def Let_def split: sum.splits)

theorem gateway_error_envelope_witness:
  "fst (getInsights unconfigured (answering 40 (Resolved unavailable))
          (JStr ''rust'') JUndef JUndef JUndef idle_world)
     = Inl (new_Error ''MODEL_TOKEN environment variable is not set'')
   \<and> fst (serve_insights too_short unconfigured (answering 40 (Resolved unavailable))
          ''rust'' idle_world)
     = \<lparr> reply_status = 500,
         reply_payload = JObj [(''success'', JBool False),
                               (''error'', JStr ''Internal Server Error'')] \<rparr>
   \<and> serve_insights too_short unconfigured (answering 40 (Resolved unavailable)) [] idle_world
     = (\<lparr> reply_status = 400,
          reply_payload = JObj [(''success'', JBool False), (''error'', JStr too_short)] \<rparr>,
        idle_world)
   \<and> errorHandler \<lparr> statusCode = Some 429, error_message = ''Rate limit exceeded'' \<rparr>
     = \<lparr> reply_status = 429,
         reply_payload = JObj [(''success'', JBool False),
                               (''error'', JStr ''Rate limit exceeded'')] \<rparr>"
  using
    gateway_error_envelope [where keyword = "''rust''" and ev = unconfigured
      and net = "answering 40 (Resolved unavailable)" and w = idle_world
      and thrown = "new_Error ''MODEL_TOKEN environment variable is not set''"
      and error = "createError 500 ''MODEL_TOKEN environment variable is not set''"
      and complaint = too_short
      and e = "\<lparr> statusCode = Some 429, error_message = ''Rate limit exceeded'' \<rparr>"
      and n = 429]
    gateway_error_envelope [where keyword = "[]" and ev = unconfigured
      and net = "answering 40 (Resolved unavailable)" and w = idle_world
      and complaint = too_short]
  by (simp add: getInsights_def Let_def unconfigured_def idle_world_def cacheKey_def
        and_then_def cache_get_def falsy_def)

end
